theory Spec2Isabelle
  imports Complex_Main
begin

section \<open>Data model of \<open>scripts/rate_limits.py\<close>\<close>

text \<open>
  The script reads on-chain state, and \<open>main\<close> computes from it a dictionary of new limits.
  Everything the script reads through an RPC handle is an input of the model:
  \<^item> on-chain unsigned integers arrive as Python \<open>int\<close>s, modelled as \<open>int\<close>;
  \<^item> Python's true division \<open>/\<close> turns every derived quantity into a \<open>float\<close>; floats are
    modelled as exact reals, so rounding, overflow to infinity and NaN are outside the model;
  \<^item> \<open>/\<close> and \<open>%\<close> raise \<open>ZeroDivisionError\<close> on a zero divisor: a branch of the model;
  \<^item> \<open>print\<close> calls are omitted.
\<close>

datatype error = ZeroDivisionError

text \<open>
  Modelled from the spec: the module \<open>utils.constants\<close> is not part of the sources. The three
  numeric constants \<open>main\<close> uses are parameters of the model.
\<close>

record Constants =
  BUFFER_MARGIN :: real
  RPS_MARGIN :: real
  WEEK :: int

text \<open>
  Modelled from the spec: the class \<open>ChainData\<close> of \<open>utils.types\<close> is not part of the sources.
  The fields are the attributes that the script reads and writes; \<open>rpc_url\<close> and \<open>pools\<close> only
  serve the fetching and printing code and are left out. \<open>total_voting_weight\<close> is the sum
  \<open>fetch_voting_weights\<close> accumulates, the next four fields are what \<open>fetch_existing_buffers\<close>
  stores.
\<close>

record ChainData =
  name :: string
  total_voting_weight :: int
  existing_buffer_cap :: int
  existing_rate_limit :: int
  current_limit :: int
  existing_midpoint :: int
  expected_emissions :: real

text \<open>
  Modelled from the spec: the class \<open>NewLimitData\<close> of \<open>utils.types\<close> is not part of the
  sources; its four positional arguments are named after the spec's \<open>LimitRecommendation\<close>.
\<close>

record NewLimitData =
  network_name :: string
  recommended_buffer_cap :: real
  recommended_rate_limit :: real
  temporary_rate_limit :: real

text \<open>
  The three values \<open>main\<close> reads from the bridging module on Optimism (lines 175 to 177):
  \<open>bufferCap\<close>, \<open>rateLimitPerSecond\<close> and \<open>burningCurrentLimitOf\<close>.
\<close>

record OpReads =
  op_buffer_cap :: int
  op_rate_limit :: int
  op_current_limit :: int

text \<open>
  The local state of \<open>main\<close>. Every \<open>web3.eth.get_block("latest").timestamp\<close> goes through the
  module-level handle \<open>web3\<close>, which is connected to the Optimism RPC. The model takes the
  sequence of timestamps that this handle returns, \<open>clock n\<close> for the \<open>n\<close>-th read, and
  \<open>reads\<close> counts the reads made so far.
\<close>

record main_state =
  new_chain_limits :: "int \<rightharpoonup> NewLimitData"
  op_buffer_delta :: real
  op_expected_emissions :: real
  reads :: nat

section \<open>The per-chain formulas (lines 95 to 102)\<close>

definition weights_percentage :: "int \<Rightarrow> ChainData \<Rightarrow> real" where
  "weights_percentage total_supply chain_data =
     real_of_int (total_voting_weight chain_data) / real_of_int total_supply"

definition min_emissions :: "int \<Rightarrow> int \<Rightarrow> ChainData \<Rightarrow> real" where
  "min_emissions weekly total_supply chain_data =
     real_of_int weekly * weights_percentage total_supply chain_data"

definition min_buffer_cap :: "int \<Rightarrow> int \<Rightarrow> ChainData \<Rightarrow> real" where
  "min_buffer_cap weekly total_supply chain_data = min_emissions weekly total_supply chain_data * 2"

definition padded_emissions :: "Constants \<Rightarrow> int \<Rightarrow> int \<Rightarrow> ChainData \<Rightarrow> real" where
  "padded_emissions C weekly total_supply chain_data =
     min_emissions weekly total_supply chain_data * BUFFER_MARGIN C"

definition adjusted_buffer_cap :: "Constants \<Rightarrow> int \<Rightarrow> int \<Rightarrow> ChainData \<Rightarrow> real" where
  "adjusted_buffer_cap C weekly total_supply chain_data =
     min_buffer_cap weekly total_supply chain_data * BUFFER_MARGIN C"

definition adjusted_rps :: "Constants \<Rightarrow> int \<Rightarrow> int \<Rightarrow> ChainData \<Rightarrow> real" where
  "adjusted_rps C weekly total_supply chain_data =
     (min_buffer_cap weekly total_supply chain_data / real_of_int (WEEK C)) * RPS_MARGIN C"

section \<open>Epoch windows\<close>

text \<open>Lines 112, 136 and 180. Python's \<open>%\<close> on integers is floor modulo, as \<open>mod\<close> on \<open>int\<close>.\<close>

definition epoch_next :: "int \<Rightarrow> int \<Rightarrow> int" where
  "epoch_next week timestamp = timestamp - (timestamp mod week) + week"

text \<open>Line 113.\<close>

definition time_to_next_epoch :: "int \<Rightarrow> int \<Rightarrow> int" where
  "time_to_next_epoch week timestamp = epoch_next week timestamp - timestamp"

text \<open>Lines 137 to 141, and again lines 181 to 183.\<close>

definition replenish_ts :: "int \<Rightarrow> int \<Rightarrow> int" where
  "replenish_ts week timestamp = epoch_next week timestamp - (60 * 10)"

definition contingency_window :: "int \<Rightarrow> int \<Rightarrow> int" where
  "contingency_window week timestamp =
     (if timestamp < replenish_ts week timestamp
      then replenish_ts week timestamp - timestamp
      else epoch_next week timestamp - timestamp)"

section \<open>Projected buffers of a chain\<close>

text \<open>Lines 114 to 117: integers only.\<close>

definition primary_replenished_buffer :: "int \<Rightarrow> int \<Rightarrow> ChainData \<Rightarrow> int" where
  "primary_replenished_buffer week timestamp chain_data =
     (let expected_buffer =
            current_limit chain_data
              + (existing_rate_limit chain_data * time_to_next_epoch week timestamp)
      in min expected_buffer (existing_midpoint chain_data))"

text \<open>Line 143.\<close>

definition contingency_expected_buffer ::
  "Constants \<Rightarrow> int \<Rightarrow> int \<Rightarrow> int \<Rightarrow> ChainData \<Rightarrow> real" where
  "contingency_expected_buffer C weekly total_supply timestamp chain_data =
     real_of_int (current_limit chain_data)
       + (adjusted_rps C weekly total_supply chain_data
            * real_of_int (contingency_window (WEEK C) timestamp))"

text \<open>Lines 144 to 146.\<close>

definition contingency_replenished_buffer ::
  "Constants \<Rightarrow> int \<Rightarrow> int \<Rightarrow> int \<Rightarrow> ChainData \<Rightarrow> real" where
  "contingency_replenished_buffer C weekly total_supply timestamp chain_data =
     min (contingency_expected_buffer C weekly total_supply timestamp chain_data)
         (adjusted_buffer_cap C weekly total_supply chain_data / 2)"

text \<open>Lines 151 to 154; the caller checks the divisor first.\<close>

definition temporary_rps :: "Constants \<Rightarrow> int \<Rightarrow> int \<Rightarrow> int \<Rightarrow> ChainData \<Rightarrow> real" where
  "temporary_rps C weekly total_supply timestamp chain_data =
     (let buffer_delta =
            (adjusted_buffer_cap C weekly total_supply chain_data / 2)
              - real_of_int (current_limit chain_data)
      in buffer_delta / real_of_int (contingency_window (WEEK C) timestamp) * RPS_MARGIN C)"

section \<open>One iteration of the loop over \<open>chains.items()\<close> (lines 93 to 171)\<close>

definition chain_step ::
  "Constants \<Rightarrow> (nat \<Rightarrow> int) \<Rightarrow> int \<Rightarrow> int \<Rightarrow> int \<Rightarrow> ChainData \<Rightarrow> main_state
     \<Rightarrow> error + main_state" where
  "chain_step C clock total_supply weekly chain_id chain_data0 s =
     (if total_supply = 0 then Inl ZeroDivisionError
      else if WEEK C = 0 then Inl ZeroDivisionError
      else
        let chain_data = chain_data0
              \<lparr>expected_emissions := padded_emissions C weekly total_supply chain_data0\<rparr>;
            cap = adjusted_buffer_cap C weekly total_supply chain_data;
            rps = adjusted_rps C weekly total_supply chain_data;
            s1 = s\<lparr>op_buffer_delta := op_buffer_delta s
                       + (if cap > real_of_int (existing_buffer_cap chain_data)
                          then cap - real_of_int (existing_buffer_cap chain_data)
                          else 0),
                    op_expected_emissions :=
                       op_expected_emissions s + expected_emissions chain_data\<rparr>;
            timestamp = clock (reads s1);
            s2 = s1\<lparr>reads := reads s1 + 1\<rparr>;
            replenished_buffer = primary_replenished_buffer (WEEK C) timestamp chain_data
        in if expected_emissions chain_data > real_of_int replenished_buffer then
             let timestamp = clock (reads s2);
                 s3 = s2\<lparr>reads := reads s2 + 1\<rparr>;
                 replenished_buffer =
                   contingency_replenished_buffer C weekly total_supply timestamp chain_data
             in if expected_emissions chain_data > replenished_buffer then
                  if contingency_window (WEEK C) timestamp = 0 then Inl ZeroDivisionError
                  else Inr (s3\<lparr>new_chain_limits := (new_chain_limits s3)(chain_id \<mapsto>
                         \<lparr>network_name = name chain_data,
                          recommended_buffer_cap = cap,
                          recommended_rate_limit = rps,
                          temporary_rate_limit =
                            temporary_rps C weekly total_supply timestamp chain_data\<rparr>)\<rparr>)
                else Inr (s3\<lparr>new_chain_limits := (new_chain_limits s3)(chain_id \<mapsto>
                         \<lparr>network_name = name chain_data,
                          recommended_buffer_cap = cap,
                          recommended_rate_limit = rps,
                          temporary_rate_limit = 0\<rparr>)\<rparr>)
           else Inr s2)"

text \<open>The loop: the items of the dictionary \<open>chains\<close> in insertion order; an exception ends it.\<close>

fun chains_loop ::
  "Constants \<Rightarrow> (nat \<Rightarrow> int) \<Rightarrow> int \<Rightarrow> int \<Rightarrow> (int \<times> ChainData) list \<Rightarrow> main_state
     \<Rightarrow> error + main_state" where
  "chains_loop C clock total_supply weekly [] s = Inr s"
| "chains_loop C clock total_supply weekly ((chain_id, chain_data) # rest) s =
     (case chain_step C clock total_supply weekly chain_id chain_data s of
        Inl e \<Rightarrow> Inl e
      | Inr s' \<Rightarrow> chains_loop C clock total_supply weekly rest s')"

section \<open>The Optimism block (lines 173 to 211)\<close>

text \<open>Line 185.\<close>

definition op_adjusted_buffer_cap :: "OpReads \<Rightarrow> main_state \<Rightarrow> real" where
  "op_adjusted_buffer_cap op s = op_buffer_delta s + real_of_int (op_buffer_cap op)"

text \<open>Lines 186 and 187; the caller checks the divisors first.\<close>

definition op_adjusted_rps :: "Constants \<Rightarrow> OpReads \<Rightarrow> main_state \<Rightarrow> real" where
  "op_adjusted_rps C op s =
     (let min_buffer_cap = op_adjusted_buffer_cap op s / BUFFER_MARGIN C
      in (min_buffer_cap / real_of_int (WEEK C)) * RPS_MARGIN C)"

text \<open>Lines 189 and 190.\<close>

definition op_replenished_buffer :: "Constants \<Rightarrow> OpReads \<Rightarrow> int \<Rightarrow> main_state \<Rightarrow> real" where
  "op_replenished_buffer C op timestamp s =
     (let expected_buffer =
            real_of_int (op_current_limit op)
              + (op_adjusted_rps C op s * real_of_int (contingency_window (WEEK C) timestamp))
      in min expected_buffer (op_adjusted_buffer_cap op s / 2))"

text \<open>Lines 197 to 200.\<close>

definition op_temporary_rps :: "Constants \<Rightarrow> OpReads \<Rightarrow> int \<Rightarrow> main_state \<Rightarrow> real" where
  "op_temporary_rps C op timestamp s =
     (let buffer_delta = (op_adjusted_buffer_cap op s / 2) - real_of_int (op_current_limit op)
      in buffer_delta / real_of_int (contingency_window (WEEK C) timestamp) * RPS_MARGIN C)"

definition op_step :: "Constants \<Rightarrow> (nat \<Rightarrow> int) \<Rightarrow> OpReads \<Rightarrow> main_state \<Rightarrow> error + main_state" where
  "op_step C clock op s =
     (let timestamp = clock (reads s);
          s1 = s\<lparr>reads := reads s + 1\<rparr>
      in if WEEK C = 0 then Inl ZeroDivisionError
         else if BUFFER_MARGIN C = 0 then Inl ZeroDivisionError
         else if op_expected_emissions s1 > op_replenished_buffer C op timestamp s1 then
           if contingency_window (WEEK C) timestamp = 0 then Inl ZeroDivisionError
           else Inr (s1\<lparr>new_chain_limits := (new_chain_limits s1)(10 \<mapsto>
                  \<lparr>network_name = ''Optimism'',
                   recommended_buffer_cap = op_adjusted_buffer_cap op s1,
                   recommended_rate_limit = op_adjusted_rps C op s1,
                   temporary_rate_limit = op_temporary_rps C op timestamp s1\<rparr>)\<rparr>)
         else Inr (s1\<lparr>new_chain_limits := (new_chain_limits s1)(10 \<mapsto>
                  \<lparr>network_name = ''Optimism'',
                   recommended_buffer_cap = op_adjusted_buffer_cap op s1,
                   recommended_rate_limit = op_adjusted_rps C op s1,
                   temporary_rate_limit = 0\<rparr>)\<rparr>))"

section \<open>\<open>main\<close> (lines 70 to 213)\<close>

definition init_state :: main_state where
  "init_state =
     \<lparr>new_chain_limits = Map.empty, op_buffer_delta = 0, op_expected_emissions = 0, reads = 0\<rparr>"

definition main ::
  "Constants \<Rightarrow> (nat \<Rightarrow> int) \<Rightarrow> int \<Rightarrow> int \<Rightarrow> (int \<times> ChainData) list \<Rightarrow> OpReads
     \<Rightarrow> error + (int \<rightharpoonup> NewLimitData)" where
  "main C clock total_supply weekly chain_items op =
     (case chains_loop C clock total_supply weekly chain_items init_state of
        Inl e \<Rightarrow> Inl e
      | Inr s \<Rightarrow>
          if op_buffer_delta s > 0 then
            (case op_step C clock op s of
               Inl e \<Rightarrow> Inl e
             | Inr s' \<Rightarrow> Inr (new_chain_limits s'))
          else Inr (new_chain_limits s))"

text \<open>The dictionary \<open>chains\<close> of lines 16 to 20, with the state of each chain as fetched.\<close>

definition chains_dict ::
  "ChainData \<Rightarrow> ChainData \<Rightarrow> ChainData \<Rightarrow> (int \<times> ChainData) list" where
  "chains_dict mode lisk fraxtal = [(34443, mode), (1135, lisk), (252, fraxtal)]"


section \<open>The entry of one iteration, as a function of its two timestamps\<close>

text \<open>
  Lines 133 to 169 store at most one entry under the chain's id. \<open>t1\<close> is the timestamp read
  at line 111 and \<open>t2\<close> the one read at line 135.
\<close>

definition chain_entry :: "Constants \<Rightarrow> int \<Rightarrow> int \<Rightarrow> ChainData \<Rightarrow> int \<Rightarrow> int \<Rightarrow> NewLimitData option" where
  "chain_entry C weekly total_supply cd t1 t2 =
    (if padded_emissions C weekly total_supply cd > real_of_int (primary_replenished_buffer (WEEK C) t1 cd)
     then Some \<lparr>network_name = name cd,
                recommended_buffer_cap = adjusted_buffer_cap C weekly total_supply cd,
                recommended_rate_limit = adjusted_rps C weekly total_supply cd,
                temporary_rate_limit =
                  (if padded_emissions C weekly total_supply cd
                        > contingency_replenished_buffer C weekly total_supply t2 cd
                   then temporary_rps C weekly total_supply t2 cd else 0)\<rparr>
     else None)"


section \<open>A concrete run\<close>

text \<open>
  The constants of the spec's scenario A, one chain with a quarter of the votes and two chains
  without votes, and two clocks of the Optimism handle: one early in an epoch and one in its
  last half hour. \<open>1753920000 = 2900 * 604800\<close> is an epoch boundary.
\<close>

definition scenario_constants :: Constants where
  "scenario_constants = \<lparr>BUFFER_MARGIN = 12 / 10, RPS_MARGIN = 11 / 10, WEEK = 604800\<rparr>"

definition mode_chain :: ChainData where
  "mode_chain =
     \<lparr>name = ''Mode'', total_voting_weight = 250, existing_buffer_cap = 1000,
      existing_rate_limit = 0, current_limit = 0, existing_midpoint = 500,
      expected_emissions = 0\<rparr>"

definition idle_chain :: "string \<Rightarrow> ChainData" where
  "idle_chain n =
     \<lparr>name = n, total_voting_weight = 0, existing_buffer_cap = 1000,
      existing_rate_limit = 1, current_limit = 100, existing_midpoint = 500,
      expected_emissions = 0\<rparr>"

definition early_clock :: "nat \<Rightarrow> int" where
  "early_clock n = 1753920000 + 4800 + int n"

definition late_clock :: "nat \<Rightarrow> int" where
  "late_clock n = 1753920000 + 603000 + int n"

definition op_reads :: OpReads where
  "op_reads = \<lparr>op_buffer_cap = 10000, op_rate_limit = 1, op_current_limit = 8000\<rparr>"


section \<open>Auxiliary facts\<close>

lemmas formula_defs =
  weights_percentage_def min_emissions_def min_buffer_cap_def padded_emissions_def
  adjusted_buffer_cap_def adjusted_rps_def

lemma upd_padded [simp]:
  "padded_emissions C w t (cd\<lparr>expected_emissions := e\<rparr>) = padded_emissions C w t cd"
  "adjusted_buffer_cap C w t (cd\<lparr>expected_emissions := e\<rparr>) = adjusted_buffer_cap C w t cd"
  "adjusted_rps C w t (cd\<lparr>expected_emissions := e\<rparr>) = adjusted_rps C w t cd"
  by (simp_all add: formula_defs)

lemma upd_buffers [simp]:
  "primary_replenished_buffer k ts (cd\<lparr>expected_emissions := e\<rparr>) = primary_replenished_buffer k ts cd"
  "contingency_replenished_buffer C w t ts (cd\<lparr>expected_emissions := e\<rparr>)
     = contingency_replenished_buffer C w t ts cd"
  "temporary_rps C w t ts (cd\<lparr>expected_emissions := e\<rparr>) = temporary_rps C w t ts cd"
  by (simp_all add: primary_replenished_buffer_def contingency_replenished_buffer_def
        contingency_expected_buffer_def temporary_rps_def)

lemma epoch_next_gt: "0 < k \<Longrightarrow> ts < epoch_next k ts"
proof -
  assume k: "0 < k"
  then have "ts mod k < k" by simp
  then show ?thesis by (simp add: epoch_next_def)
qed

lemma contingency_window_pos: "0 < k \<Longrightarrow> 0 < contingency_window k ts"
  using epoch_next_gt [of k ts] by (simp add: contingency_window_def)

lemma contingency_window_nonzero: "k \<noteq> 0 \<Longrightarrow> contingency_window k ts \<noteq> 0"
proof (cases "0 < k")
  case True
  then show ?thesis using contingency_window_pos [of k ts] by simp
next
  case False
  assume "k \<noteq> 0"
  with False have k: "k < 0" by simp
  then have "k < ts mod k" by simp
  then have "epoch_next k ts < ts" by (simp add: epoch_next_def)
  then show ?thesis by (simp add: contingency_window_def replenish_ts_def)
qed

lemma chain_step_Inr_iff:
  "(\<exists>s'. chain_step C clock total_supply weekly chain_id cd s = Inr s')
     \<longleftrightarrow> total_supply \<noteq> 0 \<and> WEEK C \<noteq> 0"
  by (auto simp: chain_step_def Let_def contingency_window_nonzero)

lemma chain_step_limits:
  assumes "chain_step C clock total_supply weekly chain_id cd s = Inr s'"
  shows "new_chain_limits s' =
           (case chain_entry C weekly total_supply cd (clock (reads s)) (clock (Suc (reads s))) of
              None \<Rightarrow> new_chain_limits s
            | Some r \<Rightarrow> (new_chain_limits s)(chain_id \<mapsto> r))"
  using assms
  by (auto simp: chain_step_def chain_entry_def Let_def contingency_window_nonzero
           split: if_splits)


lemma chains_loop_append:
  "chains_loop C clock t w (xs @ ys) s =
     (case chains_loop C clock t w xs s of Inl e \<Rightarrow> Inl e | Inr s' \<Rightarrow> chains_loop C clock t w ys s')"
  by (induction xs arbitrary: s) (auto split: sum.splits)

lemma chain_step_other:
  "chain_step C clock t w chain_id cd s = Inr s' \<Longrightarrow> k \<noteq> chain_id
     \<Longrightarrow> new_chain_limits s' k = new_chain_limits s k"
  by (simp add: chain_step_limits split: option.splits)

lemma chains_loop_other:
  "chains_loop C clock t w xs s = Inr s' \<Longrightarrow> k \<notin> fst ` set xs
     \<Longrightarrow> new_chain_limits s' k = new_chain_limits s k"
proof (induction xs arbitrary: s)
  case Nil
  then show ?case by simp
next
  case (Cons x xs)
  obtain chain_id cd where x: "x = (chain_id, cd)" by (cases x)
  from Cons.prems(1) x obtain s1 where
    s1: "chain_step C clock t w chain_id cd s = Inr s1" and
    rest: "chains_loop C clock t w xs s1 = Inr s'"
    by (auto split: sum.splits)
  from Cons.prems(2) x have "k \<noteq> chain_id" and "k \<notin> fst ` set xs" by auto
  then show ?case using Cons.IH [OF rest] chain_step_other [OF s1] by simp
qed

lemma op_step_Inr_iff:
  "(\<exists>s'. op_step C clock op s = Inr s') \<longleftrightarrow> WEEK C \<noteq> 0 \<and> BUFFER_MARGIN C \<noteq> 0"
  by (auto simp: op_step_def Let_def contingency_window_nonzero)

lemma op_step_other:
  "op_step C clock op s = Inr s' \<Longrightarrow> k \<noteq> 10 \<Longrightarrow> new_chain_limits s' k = new_chain_limits s k"
  by (auto simp: op_step_def Let_def split: if_splits)


lemma main_Inr:
  assumes "main C clock t w xs op = Inr m"
  obtains s where "chains_loop C clock t w xs init_state = Inr s"
    and "\<And>k. k \<noteq> 10 \<Longrightarrow> m k = new_chain_limits s k"
  using assms
  by (auto simp: main_def split: sum.splits if_splits dest: op_step_other)

lemma main_entry:
  assumes m: "main C clock t w (pre @ (chain_id, cd) # post) op = Inr m"
    and d: "distinct (map fst (pre @ (chain_id, cd) # post))"
    and k: "chain_id \<noteq> 10"
  shows "\<exists>s. chains_loop C clock t w pre init_state = Inr s \<and>
           m chain_id = chain_entry C w t cd (clock (reads s)) (clock (Suc (reads s)))"
proof -
  from m obtain s3 where
    s3: "chains_loop C clock t w (pre @ (chain_id, cd) # post) init_state = Inr s3" and
    eq: "m chain_id = new_chain_limits s3 chain_id"
    using k by (auto elim: main_Inr)
  from s3 obtain s1 where s1: "chains_loop C clock t w pre init_state = Inr s1"
    and r: "chains_loop C clock t w ((chain_id, cd) # post) s1 = Inr s3"
    by (auto simp: chains_loop_append split: sum.splits)
  from r obtain s2 where s2: "chain_step C clock t w chain_id cd s1 = Inr s2"
    and p: "chains_loop C clock t w post s2 = Inr s3"
    by (auto split: sum.splits)
  from d have pre: "chain_id \<notin> fst ` set pre" and post: "chain_id \<notin> fst ` set post"
    by auto
  have a: "new_chain_limits s1 chain_id = None"
    using chains_loop_other [OF s1 pre] by (simp add: init_state_def)
  have b: "new_chain_limits s3 chain_id = new_chain_limits s2 chain_id"
    using chains_loop_other [OF p post] .
  have "new_chain_limits s2 chain_id
          = chain_entry C w t cd (clock (reads s1)) (clock (Suc (reads s1)))"
    using chain_step_limits [OF s2] a by (simp split: option.splits)
  with eq b s1 show ?thesis by simp
qed







lemmas scenario_defs =
  scenario_constants_def mode_chain_def idle_chain_def early_clock_def late_clock_def
  op_reads_def chains_dict_def

lemmas eval_defs =
  main_def init_state_def chain_step_def op_step_def Let_def
  weights_percentage_def min_emissions_def min_buffer_cap_def padded_emissions_def
  adjusted_buffer_cap_def adjusted_rps_def epoch_next_def time_to_next_epoch_def
  replenish_ts_def contingency_window_def primary_replenished_buffer_def
  contingency_expected_buffer_def contingency_replenished_buffer_def temporary_rps_def
  op_adjusted_buffer_cap_def op_adjusted_rps_def op_replenished_buffer_def
  op_temporary_rps_def



section \<open>Ceilings of the projected buffers\<close>

text \<open>
  Claim C6. The projected usable buffer never exceeds its ceiling: the primary replenished
  buffer of a chain is at most the chain's existing midpoint, the contingency replenished
  buffer is at most half of the adjusted buffer cap, and the same holds for the buffer
  projected in the Optimism block.
\<close>

theorem replenished_buffer_ceilings:
  "primary_replenished_buffer week timestamp chain_data \<le> existing_midpoint chain_data
   \<and> contingency_replenished_buffer C weekly total_supply timestamp chain_data
         \<le> adjusted_buffer_cap C weekly total_supply chain_data / 2
   \<and> op_replenished_buffer C op timestamp s \<le> op_adjusted_buffer_cap op s / 2"
proof -
  have "primary_replenished_buffer week timestamp chain_data \<le> existing_midpoint chain_data"
    unfolding primary_replenished_buffer_def Let_def by (rule min.cobounded2)
  moreover have "contingency_replenished_buffer C weekly total_supply timestamp chain_data
         \<le> adjusted_buffer_cap C weekly total_supply chain_data / 2"
    unfolding contingency_replenished_buffer_def by (rule min.cobounded2)
  moreover have "op_replenished_buffer C op timestamp s \<le> op_adjusted_buffer_cap op s / 2"
    unfolding op_replenished_buffer_def Let_def by (rule min.cobounded2)
  ultimately show ?thesis by blast
qed

section \<open>The contingency ceiling is the padded emission\<close>

text \<open>
  Claim C10. Half of the adjusted buffer cap of a chain equals its padded expected emissions,
  so the contingency check \<open>expected_emissions \<le> min expected_buffer (adjusted_buffer_cap / 2)\<close>
  holds exactly when the uncapped \<open>expected_buffer\<close> of line 143 is at least the padded
  expected emissions.
\<close>

theorem contingency_ceiling_is_padded_emissions:
  "adjusted_buffer_cap C weekly total_supply chain_data / 2
     = padded_emissions C weekly total_supply chain_data
   \<and> (padded_emissions C weekly total_supply chain_data
          \<le> contingency_replenished_buffer C weekly total_supply timestamp chain_data
        \<longleftrightarrow>
        padded_emissions C weekly total_supply chain_data
          \<le> contingency_expected_buffer C weekly total_supply timestamp chain_data)"
proof -
  have half: "adjusted_buffer_cap C weekly total_supply chain_data / 2
                = padded_emissions C weekly total_supply chain_data"
    by (simp add: adjusted_buffer_cap_def min_buffer_cap_def padded_emissions_def)
  then show ?thesis
    by (simp add: contingency_replenished_buffer_def)
qed

section \<open>The contingency window is never empty\<close>

text \<open>
  Claim C4. With a positive epoch length the window of lines 139 to 141 (and 183) is strictly
  positive at every timestamp. At \<open>timestamp = replenish_ts\<close> the comparison of line 140 is
  false, so the window is \<open>epoch_next - timestamp\<close>, which is 600. Hence no iteration of the
  loop raises once the total supply is not zero, and the Optimism block does not raise once
  the buffer margin is not zero: the divisions of lines 153 and 199 never divide by zero.
\<close>

theorem contingency_window_positive:
  assumes "0 < WEEK C"
  shows "0 < contingency_window (WEEK C) timestamp
         \<and> (timestamp = replenish_ts (WEEK C) timestamp \<longrightarrow>
              contingency_window (WEEK C) timestamp = epoch_next (WEEK C) timestamp - timestamp
              \<and> contingency_window (WEEK C) timestamp = 600)
         \<and> (total_supply \<noteq> 0 \<longrightarrow>
              (\<exists>s'. chain_step C clock total_supply weekly chain_id chain_data s = Inr s'))
         \<and> (BUFFER_MARGIN C \<noteq> 0 \<longrightarrow> (\<exists>s'. op_step C clock op s = Inr s'))"
proof -
  have pos: "0 < contingency_window (WEEK C) timestamp"
    using assms by (rule contingency_window_pos)
  have at_margin: "contingency_window (WEEK C) timestamp = epoch_next (WEEK C) timestamp - timestamp
      \<and> contingency_window (WEEK C) timestamp = 600"
    if "timestamp = replenish_ts (WEEK C) timestamp"
  proof -
    from that have "\<not> timestamp < replenish_ts (WEEK C) timestamp" by simp
    then have w: "contingency_window (WEEK C) timestamp = epoch_next (WEEK C) timestamp - timestamp"
      by (simp add: contingency_window_def)
    from that have "epoch_next (WEEK C) timestamp - timestamp = 600"
      by (simp add: replenish_ts_def)
    with w show ?thesis by simp
  qed
  have chain: "\<exists>s'. chain_step C clock total_supply weekly chain_id chain_data s = Inr s'"
    if "total_supply \<noteq> 0"
    using that assms by (simp add: chain_step_Inr_iff)
  have opt: "\<exists>s'. op_step C clock op s = Inr s'" if "BUFFER_MARGIN C \<noteq> 0"
    using that assms by (simp add: op_step_Inr_iff)
  from pos at_margin chain opt show ?thesis by blast
qed

theorem contingency_window_positive_witness:
  "0 < WEEK scenario_constants
   \<and> (1754524200::int) = replenish_ts (WEEK scenario_constants) 1754524200
   \<and> contingency_window (WEEK scenario_constants) 1754524200 = 600
   \<and> (1000::int) \<noteq> 0
   \<and> (\<exists>s'. chain_step scenario_constants late_clock 1000 10000 34443 mode_chain init_state
              = Inr s')
   \<and> BUFFER_MARGIN scenario_constants \<noteq> 0
   \<and> (\<exists>s'. op_step scenario_constants late_clock op_reads init_state = Inr s')"
proof -
  have w: "0 < WEEK scenario_constants"
    by (simp add: scenario_constants_def)
  have r: "(1754524200::int) = replenish_ts (WEEK scenario_constants) 1754524200"
    by (simp add: scenario_constants_def replenish_ts_def epoch_next_def)
  have b: "BUFFER_MARGIN scenario_constants \<noteq> 0"
    by (simp add: scenario_constants_def)
  from contingency_window_positive [OF w, of 1754524200 1000 late_clock 10000 34443 mode_chain
      init_state op_reads] r b
  show ?thesis using w by simp
qed

section \<open>Scenario A\<close>

text \<open>
  Claim C5, as amended. For \<open>V_total = 1000\<close>, \<open>v_i = 250\<close>, \<open>W = 10000\<close>,
  \<open>BUFFER_MARGIN = 1.2\<close>, \<open>RPS_MARGIN = 1.1\<close> and \<open>WEEK = 604800\<close> the formulas of lines 95
  to 102 give a share of 0.25, minimum emissions 2500, padded expected emissions 3000, a
  minimum buffer cap of 5000, an adjusted buffer cap of 6000 and an adjusted rate of
  \<open>5000 / 604800 * 1.1 = 55 / 6048\<close>, which is 0.00909 to three significant digits.
\<close>

theorem scenario_a_values:
  "weights_percentage 1000 mode_chain = 1 / 4
   \<and> min_emissions 10000 1000 mode_chain = 2500
   \<and> padded_emissions scenario_constants 10000 1000 mode_chain = 3000
   \<and> min_buffer_cap 10000 1000 mode_chain = 5000
   \<and> adjusted_buffer_cap scenario_constants 10000 1000 mode_chain = 6000
   \<and> adjusted_rps scenario_constants 10000 1000 mode_chain = 55 / 6048
   \<and> \<bar>adjusted_rps scenario_constants 10000 1000 mode_chain - 909 / 100000\<bar> < 1 / 100000"
  by (simp add: formula_defs scenario_constants_def mode_chain_def)

text \<open>
  The value \<open>0.0109\<close> of the scenario is \<open>adjusted_buffer_cap / WEEK * RPS_MARGIN\<close>; the rate of
  line 102 starts from \<open>min_buffer_cap\<close> and is more than 0.0018 away from it.
\<close>

theorem scenario_a_rps_is_not_0109:
  "\<not> \<bar>adjusted_rps scenario_constants 10000 1000 mode_chain - 109 / 10000\<bar> \<le> 18 / 10000"
  by (simp add: formula_defs scenario_constants_def mode_chain_def)


section \<open>Which chains get an entry\<close>




section \<open>What the entry of a chain holds\<close>




section \<open>The protocol-wide buffer delta\<close>




section \<open>The entry of Optimism\<close>




section \<open>A total supply of zero\<close>

text \<open>
  Claim C8, as amended. The script has no check of the total supply. When it is 0 and the
  dictionary of chains is not empty, the run ends with the \<open>ZeroDivisionError\<close> that the share
  division of line 95 raises in the first iteration, whatever the other inputs are, and
  returns no mapping.
\<close>

theorem zero_total_supply_raises_in_share_division:
  assumes "chain_items \<noteq> []"
  shows "main C clock 0 weekly chain_items op = Inl ZeroDivisionError
         \<and> chain_step C clock 0 weekly chain_id chain_data s = Inl ZeroDivisionError"
proof -
  from assms obtain x rest where "chain_items = x # rest"
    by (cases chain_items) auto
  moreover obtain i cd where "x = (i, cd)" by (cases x)
  moreover have step: "chain_step C clock 0 weekly j d s' = Inl ZeroDivisionError" for j d s'
    by (simp add: chain_step_def)
  ultimately show ?thesis
    by (simp add: main_def)
qed

theorem zero_total_supply_raises_in_share_division_witness:
  "[(1135, idle_chain ''Lisk'')] \<noteq> []
   \<and> main scenario_constants late_clock 0 10000 [(1135, idle_chain ''Lisk'')] op_reads
       = Inl ZeroDivisionError"
  using zero_total_supply_raises_in_share_division
          [of "[(1135, idle_chain ''Lisk'')]" scenario_constants late_clock 10000 op_reads]
  by simp

text \<open>
  The claim as the spec states it asks for a failure detected before the division. The run
  on the three configured chains reaches the division and ends with its error.
\<close>

theorem zero_total_supply_reaches_division:
  "main scenario_constants early_clock 0 10000
     (chains_dict mode_chain (idle_chain ''Lisk'') (idle_chain ''Fraxtal'')) op_reads
     = Inl ZeroDivisionError"
  by (simp add: main_def chains_dict_def chain_step_def)

section \<open>The clock behind the epoch windows\<close>

text \<open>
  Claim C9, as amended. Both timestamps of a chain's iteration are read through the handle
  of the Optimism RPC, afresh in that iteration (lines 111 and 135); the chain's own RPC is
  not asked for a block. The entry of the chain in the returned mapping is the function
  \<open>chain_entry\<close> of the chain's data and of these two reads, numbers \<open>reads s\<close> and
  \<open>reads s + 1\<close> of the Optimism clock, where \<open>s\<close> is the state the earlier iterations leave.
\<close>

theorem entry_from_own_reads_of_optimism_clock:
  assumes "main C clock total_supply weekly (pre @ (chain_id, chain_data) # post) op = Inr m"
    and "distinct (map fst (pre @ (chain_id, chain_data) # post))"
    and "chain_id \<noteq> 10"
  shows "\<exists>s. chains_loop C clock total_supply weekly pre init_state = Inr s \<and>
           m chain_id
             = chain_entry C weekly total_supply chain_data
                 (clock (reads s)) (clock (Suc (reads s)))"
  using assms by (rule main_entry)

theorem entry_from_own_reads_of_optimism_clock_witness:
  "\<exists>m. main scenario_constants late_clock 1000 10000
          ([] @ (34443, mode_chain) # [(1135, idle_chain ''Lisk''), (252, idle_chain ''Fraxtal'')])
          op_reads = Inr m
       \<and> m 34443 = chain_entry scenario_constants 10000 1000 mode_chain
                      (late_clock 0) (late_clock 1)"
proof -
  have "\<exists>m. main scenario_constants late_clock 1000 10000
          ([] @ (34443, mode_chain) # [(1135, idle_chain ''Lisk''), (252, idle_chain ''Fraxtal'')])
          op_reads = Inr m"
    by (simp add: eval_defs scenario_defs)
  then obtain m where m: "main scenario_constants late_clock 1000 10000
          ([] @ (34443, mode_chain) # [(1135, idle_chain ''Lisk''), (252, idle_chain ''Fraxtal'')])
          op_reads = Inr m" ..
  have d: "distinct (map fst
          ([] @ (34443, mode_chain) # [(1135, idle_chain ''Lisk''), (252::int, idle_chain ''Fraxtal'')]))"
    by simp
  from entry_from_own_reads_of_optimism_clock [OF m d]
  have e: "m 34443 = chain_entry scenario_constants 10000 1000 mode_chain
                      (late_clock 0) (late_clock 1)"
    by (simp add: init_state_def)
  show ?thesis
    by (rule exI [of _ m]) (intro conjI m e)
qed

text \<open>
  The claim as the spec states it makes a chain's recommendation independent of the clock of
  any other network. Two runs with the same state of every chain and of the Optimism module,
  one with the Optimism clock early in the epoch and one with it in the last half hour, give
  Mode different recommendations.
\<close>

theorem mode_entry_changes_with_optimism_clock:
  "main scenario_constants early_clock 1000 10000
     (chains_dict mode_chain (idle_chain ''Lisk'') (idle_chain ''Fraxtal'')) op_reads
     = Inr [34443 \<mapsto> \<lparr>network_name = ''Mode'', recommended_buffer_cap = 6000,
                         recommended_rate_limit = 55 / 6048, temporary_rate_limit = 0\<rparr>,
            10 \<mapsto> \<lparr>network_name = ''Optimism'', recommended_buffer_cap = 15000,
                      recommended_rate_limit = 275 / 12096, temporary_rate_limit = 0\<rparr>]
   \<and> main scenario_constants late_clock 1000 10000
       (chains_dict mode_chain (idle_chain ''Lisk'') (idle_chain ''Fraxtal'')) op_reads
     = Inr [34443 \<mapsto> \<lparr>network_name = ''Mode'', recommended_buffer_cap = 6000,
                         recommended_rate_limit = 55 / 6048,
                         temporary_rate_limit = 3300 / 1199\<rparr>,
            10 \<mapsto> \<lparr>network_name = ''Optimism'', recommended_buffer_cap = 15000,
                      recommended_rate_limit = 275 / 12096, temporary_rate_limit = 0\<rparr>]
   \<and> contingency_window (WEEK scenario_constants) (early_clock 1) = 599399
   \<and> contingency_window (WEEK scenario_constants) (late_clock 1) = 1199"
  by (simp add: eval_defs scenario_defs)

end
